theory Spec2Isabelle
  imports Complex_Main "HOL-Library.AList"
begin

section \<open>Course service: models (course-service/models.py)\<close>

text \<open>
  A pydantic field declared \<open>Optional[T] = None\<close> is in one of three states after
  parsing: it was absent from the input (\<open>Unset\<close>, its value is the default \<open>None\<close>),
  or it was given, as \<open>null\<close> (\<open>Given None\<close>) or as a value (\<open>Given (Some v)\<close>).
  \<open>dict(exclude_unset=True)\<close> keeps exactly the given fields.
\<close>

datatype 'a field = Unset | Given "'a option"

text \<open>
  \<open>Course\<close>. The five data fields are assigned by \<open>setattr\<close> in \<open>update_course\<close>,
  which does not validate, so each of them can come to hold \<open>None\<close>.
\<close>

record Course =
  id_c :: int
  title :: "string option"
  description :: "string option"
  duration_weeks :: "int option"
  instructor :: "string option"
  max_students :: "int option"

record CourseCreate =
  cc_title :: string
  cc_description :: string
  cc_duration_weeks :: int
  cc_instructor :: string
  cc_max_students :: int

record CourseUpdate =
  cu_title :: "string field"
  cu_description :: "string field"
  cu_duration_weeks :: "int field"
  cu_instructor :: "string field"
  cu_max_students :: "int field"

section \<open>Course service: CourseMockDataService (course-service/data_service.py)\<close>

record CourseMockDataService =
  courses :: "Course list"
  next_id :: int

definition init_service :: CourseMockDataService where
  "init_service =
     \<lparr>courses =
        [\<lparr>id_c = 1, title = Some ''Python Programming'',
          description = Some ''Learn Python from scratch'', duration_weeks = Some 8,
          instructor = Some ''Dr. Smith'', max_students = Some 30\<rparr>,
         \<lparr>id_c = 2, title = Some ''Web Development'',
          description = Some ''HTML, CSS, JavaScript basics'', duration_weeks = Some 10,
          instructor = Some ''Dr. Johnson'', max_students = Some 25\<rparr>,
         \<lparr>id_c = 3, title = Some ''Data Science'',
          description = Some ''Data analysis and machine learning'',
          duration_weeks = Some 12, instructor = Some ''Dr. Williams'',
          max_students = Some 20\<rparr>],
      next_id = 4\<rparr>"

definition get_all_courses :: "CourseMockDataService \<Rightarrow> Course list" where
  "get_all_courses s = courses s"

text \<open>\<open>next((c for c in self.courses if c.id == course_id), None)\<close>: the first match.\<close>

definition get_course_by_id :: "CourseMockDataService \<Rightarrow> int \<Rightarrow> Course option" where
  "get_course_by_id s course_id = find (\<lambda>c. id_c c = course_id) (courses s)"

text \<open>\<open>Course(id=self.next_id, **course_data.dict())\<close>\<close>

definition new_course :: "int \<Rightarrow> CourseCreate \<Rightarrow> Course" where
  "new_course i cd =
     \<lparr>id_c = i, title = Some (cc_title cd), description = Some (cc_description cd),
      duration_weeks = Some (cc_duration_weeks cd), instructor = Some (cc_instructor cd),
      max_students = Some (cc_max_students cd)\<rparr>"

definition add_course ::
  "CourseMockDataService \<Rightarrow> CourseCreate \<Rightarrow> Course \<times> CourseMockDataService" where
  "add_course s course_data =
     (let c = new_course (next_id s) course_data
      in (c, s\<lparr>courses := courses s @ [c], next_id := next_id s + 1\<rparr>))"

text \<open>
  One item of \<open>course_data.dict(exclude_unset=True)\<close>: a key of \<open>CourseUpdate\<close> with the
  value given for it. \<open>CourseUpdate\<close> declares no \<open>id\<close>, so no item has that key.
\<close>

datatype item =
    Title "string option"
  | Description "string option"
  | DurationWeeks "int option"
  | Instructor "string option"
  | MaxStudents "int option"

definition given :: "('a option \<Rightarrow> item) \<Rightarrow> 'a field \<Rightarrow> item list" where
  "given key f = (case f of Unset \<Rightarrow> [] | Given v \<Rightarrow> [key v])"

definition dict_exclude_unset :: "CourseUpdate \<Rightarrow> item list" where
  "dict_exclude_unset u =
     given Title (cu_title u) @ given Description (cu_description u)
     @ given DurationWeeks (cu_duration_weeks u) @ given Instructor (cu_instructor u)
     @ given MaxStudents (cu_max_students u)"

fun setattr :: "item \<Rightarrow> Course \<Rightarrow> Course" where
  "setattr (Title v) c = c\<lparr>title := v\<rparr>"
| "setattr (Description v) c = c\<lparr>description := v\<rparr>"
| "setattr (DurationWeeks v) c = c\<lparr>duration_weeks := v\<rparr>"
| "setattr (Instructor v) c = c\<lparr>instructor := v\<rparr>"
| "setattr (MaxStudents v) c = c\<lparr>max_students := v\<rparr>"

text \<open>
  The object that \<open>get_course_by_id\<close> returns is the list's own element, so the
  assignments show in the list: the first course with the id is replaced by its updated
  self.
\<close>

fun assign_first :: "int \<Rightarrow> Course \<Rightarrow> Course list \<Rightarrow> Course list" where
  "assign_first i c' [] = []"
| "assign_first i c' (c # cs) = (if id_c c = i then c' # cs else c # assign_first i c' cs)"

definition update_course ::
  "CourseMockDataService \<Rightarrow> int \<Rightarrow> CourseUpdate \<Rightarrow> Course option \<times> CourseMockDataService"
  where
  "update_course s course_id course_data =
     (case get_course_by_id s course_id of
        Some course \<Rightarrow>
          (let course' = fold setattr (dict_exclude_unset course_data) course
           in (Some course', s\<lparr>courses := assign_first course_id course' (courses s)\<rparr>))
      | None \<Rightarrow> (None, s))"

text \<open>\<open>self.courses.remove(course)\<close> deletes the first element equal to \<open>course\<close>.\<close>

definition delete_course :: "CourseMockDataService \<Rightarrow> int \<Rightarrow> bool \<times> CourseMockDataService"
  where
  "delete_course s course_id =
     (case get_course_by_id s course_id of
        Some course \<Rightarrow> (True, s\<lparr>courses := remove1 course (courses s)\<rparr>)
      | None \<Rightarrow> (False, s))"

text \<open>A call of one of the three mutating methods, and a run of such calls.\<close>

datatype call = AddCourse CourseCreate | UpdateCourse int CourseUpdate | DeleteCourse int

fun do_call :: "call \<Rightarrow> CourseMockDataService \<Rightarrow> CourseMockDataService" where
  "do_call (AddCourse cd) s = snd (add_course s cd)"
| "do_call (UpdateCourse i cu) s = snd (update_course s i cu)"
| "do_call (DeleteCourse i) s = snd (delete_course s i)"

definition run :: "call list \<Rightarrow> CourseMockDataService \<Rightarrow> CourseMockDataService" where
  "run cs s = fold do_call cs s"

definition ids_ok :: "CourseMockDataService \<Rightarrow> bool" where
  "ids_ok s \<longleftrightarrow> distinct (map id_c (courses s)) \<and> (\<forall>c \<in> set (courses s). id_c c < next_id s)"

section \<open>Gateway: values, exceptions and effects (gateway/main.py)\<close>

text \<open>
  A Python \<open>float\<close> as a value: a finite double is the rational it denotes, and
  \<open>json.loads\<close> also yields the three values that are not numbers of JSON (from
  \<open>1e999\<close>, \<open>-1e999\<close> and \<open>NaN\<close>). No arithmetic on floats is defined here.
\<close>

datatype pyfloat = Finite rat | PosInf | NegInf | NaN

text \<open>
  Python values that travel as JSON. \<open>JNull\<close> is Python's \<open>None\<close>; a dict keeps its
  insertion order, so it is an association list. A string is held as its UTF-8 bytes.
\<close>

datatype json =
    JNull
  | JBool bool
  | JInt int
  | JFloat pyfloat
  | JStr string
  | JList "json list"
  | JDict "(string \<times> json) list"

text \<open>Whether every float inside a value is finite.\<close>

fun finite_json :: "json \<Rightarrow> bool" where
  "finite_json (JFloat x) = (case x of Finite q \<Rightarrow> True | _ \<Rightarrow> False)"
| "finite_json (JList xs) = list_all finite_json xs"
| "finite_json (JDict kvs) = list_all (\<lambda>kv. finite_json (snd kv)) kvs"
| "finite_json JNull = True"
| "finite_json (JBool b) = True"
| "finite_json (JInt i) = True"
| "finite_json (JStr s) = True"

text \<open>
  The classes of httpx below \<open>RequestError\<close>, which the \<open>except\<close> clauses of
  \<open>forward_request\<close> match against, each with its proper superclasses in that tree.
\<close>

datatype httpx_class =
    ConnectTimeout | ReadTimeout | WriteTimeout | PoolTimeout
  | ConnectError | ReadError | WriteError | CloseError
  | LocalProtocolError | RemoteProtocolError
  | ProxyError | UnsupportedProtocol | DecodingError | TooManyRedirects
  | TimeoutException | NetworkError | ProtocolError | TransportError | RequestError

fun superclasses :: "httpx_class \<Rightarrow> httpx_class list" where
  "superclasses ConnectTimeout = [TimeoutException, TransportError, RequestError]"
| "superclasses ReadTimeout = [TimeoutException, TransportError, RequestError]"
| "superclasses WriteTimeout = [TimeoutException, TransportError, RequestError]"
| "superclasses PoolTimeout = [TimeoutException, TransportError, RequestError]"
| "superclasses ConnectError = [NetworkError, TransportError, RequestError]"
| "superclasses ReadError = [NetworkError, TransportError, RequestError]"
| "superclasses WriteError = [NetworkError, TransportError, RequestError]"
| "superclasses CloseError = [NetworkError, TransportError, RequestError]"
| "superclasses LocalProtocolError = [ProtocolError, TransportError, RequestError]"
| "superclasses RemoteProtocolError = [ProtocolError, TransportError, RequestError]"
| "superclasses ProxyError = [TransportError, RequestError]"
| "superclasses UnsupportedProtocol = [TransportError, RequestError]"
| "superclasses DecodingError = [RequestError]"
| "superclasses TooManyRedirects = [RequestError]"
| "superclasses TimeoutException = [TransportError, RequestError]"
| "superclasses NetworkError = [TransportError, RequestError]"
| "superclasses ProtocolError = [TransportError, RequestError]"
| "superclasses TransportError = [RequestError]"
| "superclasses RequestError = []"

definition isinstance :: "httpx_class \<Rightarrow> httpx_class \<Rightarrow> bool" where
  "isinstance c k \<longleftrightarrow> k \<in> set (c # superclasses c)"

text \<open>
  What a call can raise. \<open>HTTPException status_code detail\<close> is FastAPI's;
  \<open>HttpxError c m\<close> is an httpx exception of class \<open>c\<close> with \<open>str(e) = m\<close>;
  \<open>JSONDecodeError\<close> is what \<open>response.json()\<close> raises on a body that is not JSON;
  \<open>ValueError\<close> is what rendering a \<open>JSONResponse\<close> raises on a float that is not finite;
  \<open>AttributeError\<close> comes from reading an attribute of \<open>None\<close>; \<open>OtherException\<close> is any
  other subclass of \<open>Exception\<close>, and \<open>BaseExc\<close> an exception outside \<open>Exception\<close>
  (a cancellation, an interrupt).
\<close>

datatype exn =
    HTTPException int json
  | HttpxError httpx_class string
  | JSONDecodeError
  | ValueError
  | AttributeError
  | OtherException string
  | BaseExc string


datatype level = INFO | WARNING | ERROR

datatype verb = GET | POST | PUT | DELETE

type_synonym kwargs = "(string \<times> json) list"

text \<open>
  The effects of a call, in order: a record handed to the logger, or a request sent to
  a backend through the httpx client (its method, URL and keyword arguments).
\<close>

datatype event = Log level string | Outbound verb string kwargs

fun is_Outbound :: "event \<Rightarrow> bool" where
  "is_Outbound (Outbound v u k) = True"
| "is_Outbound (Log l m) = False"

text \<open>
  The backend's answer as httpx presents it: \<open>resp_json\<close> is the value of
  \<open>response.json()\<close>, \<open>None\<close> when that call raises because the text is not JSON.
\<close>

record response =
  resp_status_code :: int
  resp_text :: string
  resp_json :: "json option"

datatype backend_result = Responds response | Raises exn

type_synonym client = "verb \<Rightarrow> string \<Rightarrow> kwargs \<Rightarrow> backend_result"

record JSONResponse =
  content :: json
  status_code :: int

text \<open>
  \<open>JSONResponse(content=..., status_code=...)\<close>. The constructor renders the content at
  once, with \<open>json.dumps(..., allow_nan=False)\<close>, which raises \<open>ValueError\<close> on an
  infinite or NaN float.
\<close>

definition new_JSONResponse :: "json \<Rightarrow> int \<Rightarrow> exn + JSONResponse" where
  "new_JSONResponse c st =
     (if finite_json c then Inr \<lparr>content = c, status_code = st\<rparr> else Inl ValueError)"

section \<open>Gateway: configuration\<close>

definition SECRET_KEY :: string where
  "SECRET_KEY = ''your-secret-key-change-in-production''"

definition ACCESS_TOKEN_EXPIRE_MINUTES :: int where
  "ACCESS_TOKEN_EXPIRE_MINUTES = 30"

definition SERVICES :: "(string \<times> string) list" where
  "SERVICES = [(''student'', ''http://localhost:8001''), (''course'', ''http://localhost:8002'')]"

section \<open>Gateway: forward_request\<close>

definition quoted :: "string \<Rightarrow> string" where
  "quoted s = [CHR 0x27] @ s @ [CHR 0x27]"

text \<open>The arrow of the forwarding log line, U+2192 in UTF-8.\<close>

definition arrow :: string where
  "arrow = [CHR 0xE2, CHR 0x86, CHR 0x92]"

text \<open>
  The \<open>if\<close>/\<open>elif\<close> chain on \<open>method\<close>: the client method called, or none for the
  \<open>else\<close> branch. The comparison is of strings, so it is case-sensitive.
\<close>

definition verb_of :: "string \<Rightarrow> verb option" where
  "verb_of method =
     (if method = ''GET'' then Some GET
      else if method = ''POST'' then Some POST
      else if method = ''PUT'' then Some PUT
      else if method = ''DELETE'' then Some DELETE
      else None)"

text \<open>\<open>response.json() if response.text else None\<close>\<close>

definition json_or_none :: "response \<Rightarrow> exn + json" where
  "json_or_none r =
     (if resp_text r \<noteq> [] then
        (case resp_json r of None \<Rightarrow> Inl JSONDecodeError | Some j \<Rightarrow> Inr j)
      else Inr JNull)"

text \<open>
  The status checks after the call. \<open>ts\<close> is \<open>datetime.utcnow().isoformat()\<close> at the
  moment an exception is built.
\<close>

definition on_response :: "string \<Rightarrow> string \<Rightarrow> string \<Rightarrow> response \<Rightarrow> exn + JSONResponse" where
  "on_response ts service path r =
     (if resp_status_code r = 404 then
        Inl (HTTPException 404 (JDict
          [(''error'', JStr ''RESOURCE_NOT_FOUND''),
           (''message'',
              JStr (''The requested resource was not found in '' @ service @ '' service'')),
           (''path'', JStr path),
           (''timestamp'', JStr ts)]))
      else if resp_status_code r = 422 then
        (case json_or_none r of
           Inl e \<Rightarrow> Inl e
         | Inr details \<Rightarrow>
             Inl (HTTPException 422 (JDict
               [(''error'', JStr ''VALIDATION_ERROR''),
                (''message'', JStr ''Request data failed validation''),
                (''details'', details),
                (''timestamp'', JStr ts)])))
      else if resp_status_code r \<ge> 500 then
        Inl (HTTPException 502 (JDict
          [(''error'', JStr ''SERVICE_ERROR''),
           (''message'', JStr (''The '' @ service @ '' service encountered an internal error'')),
           (''timestamp'', JStr ts)]))
      else
        (case json_or_none r of
           Inl e \<Rightarrow> Inl e
         | Inr j \<Rightarrow> new_JSONResponse j (resp_status_code r)))"

text \<open>
  The \<open>except\<close> clauses, tried in the source's order; an exception that none of them
  matches goes on to the caller. Each gives the records logged and the exception raised.
\<close>

definition on_exception ::
  "string \<Rightarrow> string \<Rightarrow> string \<Rightarrow> string \<Rightarrow> exn \<Rightarrow> event list \<times> exn" where
  "on_exception ts service base url e =
     (case e of
        HttpxError c m \<Rightarrow>
          (if isinstance c ConnectError then
             ([Log ERROR (''Cannot connect to '' @ service @ '' service at '' @ url)],
              HTTPException 503 (JDict
                [(''error'', JStr ''SERVICE_UNAVAILABLE''),
                 (''message'', JStr (''Cannot connect to '' @ service
                     @ '' service. Make sure it is running.'')),
                 (''service_url'', JStr base),
                 (''timestamp'', JStr ts)]))
           else if isinstance c TimeoutException then
             ([Log ERROR (''Timeout connecting to '' @ service @ '' service at '' @ url)],
              HTTPException 504 (JDict
                [(''error'', JStr ''GATEWAY_TIMEOUT''),
                 (''message'', JStr (''The '' @ service @ '' service took too long to respond'')),
                 (''timestamp'', JStr ts)]))
           else if isinstance c RequestError then
             ([Log ERROR (''Request error for '' @ service @ '' service: '' @ m)],
              HTTPException 503 (JDict
                [(''error'', JStr ''REQUEST_FAILED''),
                 (''message'', JStr (''Failed to reach '' @ service @ '' service: '' @ m)),
                 (''timestamp'', JStr ts)]))
           else ([], e))
      | _ \<Rightarrow> ([], e))"

definition forward_request ::
  "client \<Rightarrow> string \<Rightarrow> string \<Rightarrow> string \<Rightarrow> string \<Rightarrow> kwargs
     \<Rightarrow> event list \<times> (exn + JSONResponse)" where
  "forward_request client ts service path method kwargs =
     (case map_of SERVICES service of
        None \<Rightarrow>
          ([Log WARNING (''Unknown service requested: '' @ service)],
           Inl (HTTPException 404 (JDict
             [(''error'', JStr ''SERVICE_NOT_FOUND''),
              (''message'', JStr (''Service '' @ quoted service @ '' does not exist'')),
              (''available_services'', JList (map (\<lambda>(k, v). JStr k) SERVICES)),
              (''timestamp'', JStr ts)])))
      | Some base \<Rightarrow>
          (let url = base @ path;
               forwarding = Log INFO (''FORWARDING | '' @ method @ '' '' @ arrow @ '' '' @ url)
           in case verb_of method of
                None \<Rightarrow>
                  ([forwarding],
                   Inl (HTTPException 405 (JDict
                     [(''error'', JStr ''METHOD_NOT_ALLOWED''),
                      (''message'',
                         JStr (''HTTP method '' @ quoted method @ '' is not supported'')),
                      (''timestamp'', JStr ts)])))
              | Some v \<Rightarrow>
                  (case client v url kwargs of
                     Responds r \<Rightarrow>
                       ([forwarding, Outbound v url kwargs], on_response ts service path r)
                   | Raises e \<Rightarrow>
                       (let (logs, e') = on_exception ts service base url e
                        in ([forwarding, Outbound v url kwargs] @ logs, Inl e')))))"

section \<open>Gateway: tokens\<close>

text \<open>
  The \<open>jwt\<close> package is not part of the sources. A credential string is taken to be
  either a set of claims signed under some key, or a string that is no token at all.
  Time is in whole seconds since the epoch, the resolution of the \<open>exp\<close> claim.
\<close>

type_synonym payload = "(string \<times> json) list"

datatype credentials = Signed payload string | Malformed string

datatype jwt_error = ExpiredSignatureError | InvalidTokenError

text \<open>
  Modelled from the spec: \<open>jwt.encode\<close>, absent from the sources. Section 4.1: the
  credential embeds the claims and is signed with a symmetric secret.
\<close>

definition jwt_encode :: "payload \<Rightarrow> string \<Rightarrow> credentials" where
  "jwt_encode claims key = Signed claims key"

text \<open>
  Modelled from the spec: \<open>jwt.decode\<close>, absent from the sources. Section 4.1: decoding
  checks the signature and the expiry; it fails with \<open>TokenExpired\<close> when the current
  time is at or after the expiry, and with \<open>InvalidToken\<close> when the signature is
  invalid or the string is malformed. A token without \<open>exp\<close> does not expire.
\<close>

definition jwt_decode :: "credentials \<Rightarrow> string \<Rightarrow> int \<Rightarrow> jwt_error + payload" where
  "jwt_decode tok key now =
     (case tok of
        Malformed m \<Rightarrow> Inl InvalidTokenError
      | Signed claims k \<Rightarrow>
          (if k \<noteq> key then Inl InvalidTokenError
           else case map_of claims ''exp'' of
                  None \<Rightarrow> Inr claims
                | Some (JInt e) \<Rightarrow> if now \<ge> e then Inl ExpiredSignatureError else Inr claims
                | Some other \<Rightarrow> Inl InvalidTokenError))"

text \<open>\<open>now\<close> is \<open>datetime.utcnow()\<close>; \<open>timedelta(minutes=30)\<close> is 1800 seconds.\<close>

definition create_access_token :: "int \<Rightarrow> payload \<Rightarrow> credentials" where
  "create_access_token now data =
     (let to_encode = data;
          expire = now + 60 * ACCESS_TOKEN_EXPIRE_MINUTES;
          to_encode = AList.update ''exp'' (JInt expire) to_encode
      in jwt_encode to_encode SECRET_KEY)"

text \<open>
  \<open>payload.get("sub")\<close> is \<open>None\<close> for a missing key and for a key bound to \<open>null\<close>.
  The \<open>HTTPException\<close> raised inside the \<open>try\<close> is not a jwt error, so no \<open>except\<close>
  clause catches it. \<open>ExpiredSignatureError\<close> is tried before \<open>InvalidTokenError\<close>.
\<close>

definition verify_token :: "string \<Rightarrow> int \<Rightarrow> credentials \<Rightarrow> exn + json" where
  "verify_token ts now creds =
     (case jwt_decode creds SECRET_KEY now of
        Inr claims \<Rightarrow>
          (let username = (case map_of claims ''sub'' of None \<Rightarrow> JNull | Some v \<Rightarrow> v)
           in if username = JNull then
                Inl (HTTPException 401 (JDict
                  [(''error'', JStr ''INVALID_TOKEN''),
                   (''message'', JStr ''Token payload is invalid''),
                   (''timestamp'', JStr ts)]))
              else Inr username)
      | Inl ExpiredSignatureError \<Rightarrow>
          Inl (HTTPException 401 (JDict
            [(''error'', JStr ''TOKEN_EXPIRED''),
             (''message'', JStr ''Token has expired. Please login again.''),
             (''timestamp'', JStr ts)]))
      | Inl InvalidTokenError \<Rightarrow>
          Inl (HTTPException 401 (JDict
            [(''error'', JStr ''INVALID_TOKEN''),
             (''message'', JStr ''Could not validate token''),
             (''timestamp'', JStr ts)])))"

section \<open>Gateway: update handlers\<close>

record StudentUpdate =
  su_name :: "string field"
  su_age :: "int field"
  su_email :: "string field"
  su_course :: "string field"

text \<open>The gateway's own \<open>CourseUpdate\<close>, declared with the course service's fields.\<close>

record CourseUpdate_gw =
  gcu_title :: "string field"
  gcu_description :: "string field"
  gcu_duration_weeks :: "int field"
  gcu_instructor :: "string field"
  gcu_max_students :: "int field"

text \<open>
  One field's share of \<open>model.dict(exclude_unset=True)\<close>: nothing when the field was
  left unset, its key with the given value otherwise, \<open>null\<close> included.
\<close>

definition entry :: "string \<Rightarrow> ('a \<Rightarrow> json) \<Rightarrow> 'a field \<Rightarrow> (string \<times> json) list" where
  "entry key to_json f =
     (case f of
        Unset \<Rightarrow> []
      | Given None \<Rightarrow> [(key, JNull)]
      | Given (Some v) \<Rightarrow> [(key, to_json v)])"

definition student_dict_exclude_unset :: "StudentUpdate \<Rightarrow> (string \<times> json) list" where
  "student_dict_exclude_unset u =
     entry ''name'' JStr (su_name u) @ entry ''age'' JInt (su_age u)
     @ entry ''email'' JStr (su_email u) @ entry ''course'' JStr (su_course u)"

definition course_dict_exclude_unset :: "CourseUpdate_gw \<Rightarrow> (string \<times> json) list" where
  "course_dict_exclude_unset u =
     entry ''title'' JStr (gcu_title u) @ entry ''description'' JStr (gcu_description u)
     @ entry ''duration_weeks'' JInt (gcu_duration_weeks u)
     @ entry ''instructor'' JStr (gcu_instructor u)
     @ entry ''max_students'' JInt (gcu_max_students u)"

text \<open>The names of the fields that the inbound request set (pydantic's \<open>__fields_set__\<close>).\<close>

definition is_given :: "'a field \<Rightarrow> bool" where
  "is_given f = (case f of Unset \<Rightarrow> False | Given v \<Rightarrow> True)"

text \<open>What the inbound request gave a field, as the JSON value it stands for.\<close>

definition given_json :: "('a \<Rightarrow> json) \<Rightarrow> 'a field \<Rightarrow> json option" where
  "given_json to_json f =
     (case f of Unset \<Rightarrow> None | Given None \<Rightarrow> Some JNull | Given (Some v) \<Rightarrow> Some (to_json v))"

definition student_fields_set :: "StudentUpdate \<Rightarrow> string list" where
  "student_fields_set u =
     (if is_given (su_name u) then [''name''] else [])
     @ (if is_given (su_age u) then [''age''] else [])
     @ (if is_given (su_email u) then [''email''] else [])
     @ (if is_given (su_course u) then [''course''] else [])"

definition course_fields_set :: "CourseUpdate_gw \<Rightarrow> string list" where
  "course_fields_set u =
     (if is_given (gcu_title u) then [''title''] else [])
     @ (if is_given (gcu_description u) then [''description''] else [])
     @ (if is_given (gcu_duration_weeks u) then [''duration_weeks''] else [])
     @ (if is_given (gcu_instructor u) then [''instructor''] else [])
     @ (if is_given (gcu_max_students u) then [''max_students''] else [])"

text \<open>\<open>str\<close> of an integer, for the id in an f-string path.\<close>

fun str_nat :: "nat \<Rightarrow> string" where
  "str_nat n =
     (if n < 10 then [''0123456789'' ! n]
      else str_nat (n div 10) @ [''0123456789'' ! (n mod 10)])"

definition str_int :: "int \<Rightarrow> string" where
  "str_int i = (if i < 0 then ''-'' @ str_nat (nat (- i)) else str_nat (nat i))"

text \<open>
  The handlers run after the \<open>verify_token\<close> dependency has produced \<open>current_user\<close>,
  which they do not use.
\<close>

definition update_student ::
  "client \<Rightarrow> string \<Rightarrow> int \<Rightarrow> StudentUpdate \<Rightarrow> json \<Rightarrow> event list \<times> (exn + JSONResponse)"
  where
  "update_student client ts student_id student current_user =
     forward_request client ts ''student'' (''/api/students/'' @ str_int student_id) ''PUT''
       [(''json'', JDict (student_dict_exclude_unset student))]"

definition update_course_gw ::
  "client \<Rightarrow> string \<Rightarrow> int \<Rightarrow> CourseUpdate_gw \<Rightarrow> json \<Rightarrow> event list \<times> (exn + JSONResponse)"
  where
  "update_course_gw client ts course_id course current_user =
     forward_request client ts ''course'' (''/api/courses/'' @ str_int course_id) ''PUT''
       [(''json'', JDict (course_dict_exclude_unset course))]"

section \<open>Gateway: logging middleware\<close>












section \<open>Sample inputs\<close>

definition sample_create :: CourseCreate where
  "sample_create = \<lparr>cc_title = ''Algebra'', cc_description = ''Groups and rings'',
     cc_duration_weeks = 6, cc_instructor = ''Dr. Noether'', cc_max_students = 12\<rparr>"

definition sample_update :: CourseUpdate where
  "sample_update = \<lparr>cu_title = Given (Some ''Advanced Python''), cu_description = Unset,
     cu_duration_weeks = Given None, cu_instructor = Unset, cu_max_students = Unset\<rparr>"

definition sample_student_update :: StudentUpdate where
  "sample_student_update =
     \<lparr>su_name = Given (Some ''Ann''), su_age = Unset, su_email = Given None, su_course = Unset\<rparr>"

definition sample_course_update :: CourseUpdate_gw where
  "sample_course_update =
     \<lparr>gcu_title = Unset, gcu_description = Unset, gcu_duration_weeks = Given (Some 9),
      gcu_instructor = Unset, gcu_max_students = Unset\<rparr>"




definition backend_ok :: client where
  "backend_ok v url kw =
     Responds \<lparr>resp_status_code = 200, resp_text = ''true'', resp_json = Some (JBool True)\<rparr>"





section \<open>Course service: deleting a course\<close>

lemma find_first_split:
  assumes "find P xs = Some c"
  shows "\<exists>ys zs. xs = ys @ c # zs \<and> P c \<and> (\<forall>y \<in> set ys. \<not> P y)"
  using assms
proof (induction xs)
  case Nil
  then show ?case by simp
next
  case (Cons x xs)
  show ?case
  proof (cases "P x")
    case True
    with Cons.prems have "x = c" by simp
    with True have "x # xs = [] @ c # xs \<and> P c \<and> (\<forall>y \<in> set []. \<not> P y)" by simp
    then show ?thesis by blast
  next
    case False
    with Cons.prems have "find P xs = Some c" by simp
    from Cons.IH [OF this] obtain ys zs
      where "xs = ys @ c # zs" "P c" "\<forall>y \<in> set ys. \<not> P y" by blast
    with False have "x # xs = (x # ys) @ c # zs \<and> P c \<and> (\<forall>y \<in> set (x # ys). \<not> P y)"
      by simp
    then show ?thesis by blast
  qed
qed

lemma find_none_iff: "find P xs = None \<longleftrightarrow> (\<forall>x \<in> set xs. \<not> P x)"
  by (induction xs) auto

lemma remove1_first_split:
  assumes "\<forall>y \<in> set ys. \<not> P y" and "P c"
  shows "remove1 c (ys @ c # zs) = ys @ zs"
proof -
  from assms have "c \<notin> set ys" by blast
  then show ?thesis by (simp add: remove1_append)
qed

lemma delete_course_present:
  assumes "\<exists>c \<in> set (courses s). id_c c = i"
  shows "\<exists>ys c zs. courses s = ys @ c # zs \<and> id_c c = i \<and> (\<forall>y \<in> set ys. id_c y \<noteq> i)
           \<and> delete_course s i = (True, s\<lparr>courses := ys @ zs\<rparr>)"
proof -
  from assms obtain c where c: "get_course_by_id s i = Some c"
    unfolding get_course_by_id_def by (cases "find (\<lambda>c. id_c c = i) (courses s)") (auto simp: find_none_iff)
  from find_first_split [OF c [unfolded get_course_by_id_def]] obtain ys zs
    where split: "courses s = ys @ c # zs" "id_c c = i" "\<forall>y \<in> set ys. id_c y \<noteq> i" by blast
  have "remove1 c (courses s) = ys @ zs"
    using remove1_first_split [of ys "\<lambda>c. id_c c = i" c zs] split by simp
  with c have "delete_course s i = (True, s\<lparr>courses := ys @ zs\<rparr>)"
    by (simp add: delete_course_def)
  with split show ?thesis by blast
qed

lemma delete_course_absent:
  assumes "\<not> (\<exists>c \<in> set (courses s). id_c c = i)"
  shows "delete_course s i = (False, s)"
proof -
  from assms have "get_course_by_id s i = None"
    by (simp add: get_course_by_id_def find_none_iff)
  then show ?thesis by (simp add: delete_course_def)
qed

lemma filter_first_split:
  assumes "distinct (map f (ys @ c # zs))"
  shows "filter (\<lambda>x. f x \<noteq> f c) (ys @ c # zs) = ys @ zs"
proof -
  from assms have "f c \<notin> f ` set ys" and "f c \<notin> f ` set zs" by auto
  then have "\<And>x. x \<in> set ys \<Longrightarrow> f x \<noteq> f c" and "\<And>x. x \<in> set zs \<Longrightarrow> f x \<noteq> f c"
    by (metis image_eqI)+
  then have "filter (\<lambda>x. f x \<noteq> f c) ys = ys" and "filter (\<lambda>x. f x \<noteq> f c) zs = zs"
    by (simp_all add: filter_id_conv)
  then show ?thesis by simp
qed

text \<open>
  Claim C9. In every state and for every id: when a course with the id is present,
  \<open>delete_course\<close> returns \<open>True\<close> and the collection loses exactly the first course
  with that id, the courses before and after it staying as they were (with distinct ids
  this is the collection without the course of that id); when none is present it returns
  \<open>False\<close> and the state is unchanged.
\<close>

theorem delete_course_frame:
  "((\<exists>c \<in> set (courses s). id_c c = i) \<longrightarrow>
      (\<exists>ys c zs. courses s = ys @ c # zs \<and> id_c c = i \<and> (\<forall>y \<in> set ys. id_c y \<noteq> i)
         \<and> delete_course s i = (True, s\<lparr>courses := ys @ zs\<rparr>)
         \<and> (distinct (map id_c (courses s)) \<longrightarrow>
              ys @ zs = filter (\<lambda>x. id_c x \<noteq> i) (courses s))))
   \<and> (\<not> (\<exists>c \<in> set (courses s). id_c c = i) \<longrightarrow> delete_course s i = (False, s))"
proof (intro conjI impI)
  assume "\<exists>c \<in> set (courses s). id_c c = i"
  from delete_course_present [OF this] obtain ys c zs
    where *: "courses s = ys @ c # zs" "id_c c = i" "\<forall>y \<in> set ys. id_c y \<noteq> i"
      "delete_course s i = (True, s\<lparr>courses := ys @ zs\<rparr>)" by blast
  have "distinct (map id_c (courses s)) \<longrightarrow> ys @ zs = filter (\<lambda>x. id_c x \<noteq> i) (courses s)"
    using filter_first_split [of id_c ys c zs] * by simp
  with * show "\<exists>ys c zs. courses s = ys @ c # zs \<and> id_c c = i \<and> (\<forall>y \<in> set ys. id_c y \<noteq> i)
         \<and> delete_course s i = (True, s\<lparr>courses := ys @ zs\<rparr>)
         \<and> (distinct (map id_c (courses s)) \<longrightarrow>
              ys @ zs = filter (\<lambda>x. id_c x \<noteq> i) (courses s))" by blast
next
  assume "\<not> (\<exists>c \<in> set (courses s). id_c c = i)"
  then show "delete_course s i = (False, s)" by (rule delete_course_absent)
qed

theorem delete_course_frame_witness:
  "(\<exists>c \<in> set (courses init_service). id_c c = 2)
   \<and> fst (delete_course init_service 2)
   \<and> map id_c (courses (snd (delete_course init_service 2))) = [1, 3]
   \<and> \<not> (\<exists>c \<in> set (courses init_service). id_c c = 9)
   \<and> delete_course init_service 9 = (False, init_service)"
  using delete_course_frame [of init_service 2] delete_course_frame [of init_service 9]
  by (simp add: init_service_def delete_course_def get_course_by_id_def)

section \<open>Course service: the ids stay distinct and below next_id\<close>

lemma setattr_id: "id_c (setattr it c) = id_c c"
  by (cases it) simp_all

lemma fold_setattr_id: "id_c (fold setattr its c) = id_c c"
  by (induction its arbitrary: c) (simp_all add: setattr_id)

lemma assign_first_ids: "id_c c' = i \<Longrightarrow> map id_c (assign_first i c' cs) = map id_c cs"
  by (induction cs) simp_all

lemma find_some_holds: "find P xs = Some c \<Longrightarrow> P c"
  by (induction xs) (auto split: if_splits)

lemma update_course_ids: "map id_c (courses (snd (update_course s i u))) = map id_c (courses s)"
proof (cases "get_course_by_id s i")
  case None
  then show ?thesis by (simp add: update_course_def)
next
  case (Some c)
  then have "id_c c = i"
    unfolding get_course_by_id_def by (rule find_some_holds)
  then have "id_c (fold setattr (dict_exclude_unset u) c) = i"
    by (simp add: fold_setattr_id)
  with Some show ?thesis
    by (simp add: update_course_def Let_def assign_first_ids)
qed

lemma update_course_next_id: "next_id (snd (update_course s i u)) = next_id s"
  by (simp add: update_course_def Let_def split: option.split)

lemma ids_ok_alt: "ids_ok s \<longleftrightarrow> distinct (map id_c (courses s)) \<and> (\<forall>j \<in> set (map id_c (courses s)). j < next_id s)"
  by (auto simp: ids_ok_def)

lemma ids_ok_update: "ids_ok s \<Longrightarrow> ids_ok (snd (update_course s i u))"
  unfolding ids_ok_alt update_course_ids update_course_next_id by assumption

lemma ids_ok_add: "ids_ok s \<Longrightarrow> ids_ok (snd (add_course s cd))"
  by (force simp: ids_ok_def add_course_def Let_def new_course_def)

lemma ids_ok_delete:
  assumes "ids_ok s"
  shows "ids_ok (snd (delete_course s i))"
proof (cases "\<exists>c \<in> set (courses s). id_c c = i")
  case True
  from delete_course_present [OF this] obtain ys c zs
    where "courses s = ys @ c # zs" "delete_course s i = (True, s\<lparr>courses := ys @ zs\<rparr>)"
    by blast
  with assms show ?thesis by (auto simp: ids_ok_def)
next
  case False
  with assms show ?thesis by (simp add: delete_course_absent)
qed

lemma ids_ok_do_call: "ids_ok s \<Longrightarrow> ids_ok (do_call c s)"
  by (cases c) (simp_all add: ids_ok_add ids_ok_update ids_ok_delete)

lemma ids_ok_init: "ids_ok init_service"
  by (simp add: ids_ok_def init_service_def)

lemma ids_ok_run: "ids_ok s \<Longrightarrow> ids_ok (run cs s)"
  unfolding run_def by (induction cs arbitrary: s) (simp_all add: ids_ok_do_call)

text \<open>
  Claim C10. After every sequence of \<open>add_course\<close>, \<open>update_course\<close> and
  \<open>delete_course\<close> calls from the initial state, the ids in the collection are pairwise
  distinct and each is strictly below \<open>next_id\<close>; \<open>update_course\<close> leaves the ids of
  the collection as they were, in any state.
\<close>

theorem ids_distinct_below_next_id:
  "ids_ok (run cs init_service)
   \<and> map id_c (courses (snd (update_course s i u))) = map id_c (courses s)"
  using ids_ok_run [OF ids_ok_init] update_course_ids by simp

theorem ids_distinct_below_next_id_witness:
  "ids_ok (run [AddCourse sample_create, UpdateCourse 1 sample_update, DeleteCourse 2,
                AddCourse sample_create] init_service)
   \<and> map id_c (courses (run [AddCourse sample_create, UpdateCourse 1 sample_update,
                DeleteCourse 2, AddCourse sample_create] init_service)) = [1, 3, 4, 5]
   \<and> next_id (run [AddCourse sample_create, UpdateCourse 1 sample_update,
                DeleteCourse 2, AddCourse sample_create] init_service) = 6
   \<and> map id_c (courses (snd (update_course init_service 1 sample_update))) = [1, 2, 3]"
  using ids_distinct_below_next_id [of "[AddCourse sample_create, UpdateCourse 1 sample_update,
      DeleteCourse 2, AddCourse sample_create]" init_service 1 sample_update]
  by (simp add: run_def init_service_def add_course_def update_course_def delete_course_def
      get_course_by_id_def new_course_def Let_def dict_exclude_unset_def given_def
      sample_create_def sample_update_def ids_ok_def)

section \<open>Gateway: outcomes of forward_request\<close>

lemma forward_request_called:
  assumes "map_of SERVICES service = Some base" and "verb_of method = Some v"
    and "client v (base @ path) kwargs = Responds r"
  shows "snd (forward_request client ts service path method kwargs) = on_response ts service path r"
  using assms by (simp add: forward_request_def Let_def)

lemma forward_request_raised:
  assumes "map_of SERVICES service = Some base" and "verb_of method = Some v"
    and "client v (base @ path) kwargs = Raises e"
  shows "snd (forward_request client ts service path method kwargs)
           = Inl (snd (on_exception ts service base (base @ path) e))"
  using assms by (simp add: forward_request_def Let_def split: prod.split)

text \<open>
  Claim C1. For a configured service, when the call was issued and the backend answered
  with a status of 500 or more, \<open>forward_request\<close> raises the gateway error with status
  502 and code \<open>SERVICE_ERROR\<close>; its detail is built from the service name and the
  timestamp only, so neither the backend's status nor its body reaches the caller.
\<close>

theorem backend_5xx_becomes_502:
  assumes "map_of SERVICES service = Some base"
    and "verb_of method = Some v"
    and "client v (base @ path) kwargs = Responds r"
    and "resp_status_code r \<ge> 500"
  shows "snd (forward_request client ts service path method kwargs) =
           Inl (HTTPException 502 (JDict
             [(''error'', JStr ''SERVICE_ERROR''),
              (''message'', JStr (''The '' @ service @ '' service encountered an internal error'')),
              (''timestamp'', JStr ts)]))"
proof -
  have "snd (forward_request client ts service path method kwargs) = on_response ts service path r"
    using assms(1-3) by (rule forward_request_called)
  moreover from assms(4) have "resp_status_code r \<noteq> 404" and "resp_status_code r \<noteq> 422"
    by simp_all
  ultimately show ?thesis
    using assms(4) by (simp add: on_response_def)
qed

theorem backend_5xx_becomes_502_witness:
  "snd (forward_request
      (\<lambda>v url kw. Responds \<lparr>resp_status_code = 500, resp_text = ''Internal Server Error'',
                             resp_json = None\<rparr>)
      ''2026-01-01T00:00:00'' ''course'' ''/api/courses'' ''GET'' []) =
     Inl (HTTPException 502 (JDict
       [(''error'', JStr ''SERVICE_ERROR''),
        (''message'', JStr ''The course service encountered an internal error''),
        (''timestamp'', JStr ''2026-01-01T00:00:00'')]))"
  using backend_5xx_becomes_502 [of "''course''" "''http://localhost:8002''" "''GET''" GET
      "\<lambda>v url kw. Responds \<lparr>resp_status_code = 500, resp_text = ''Internal Server Error'',
                             resp_json = None\<rparr>"
      "''/api/courses''" "[]"
      "\<lparr>resp_status_code = 500, resp_text = ''Internal Server Error'', resp_json = None\<rparr>"
      "''2026-01-01T00:00:00''"]
  by (simp add: SERVICES_def verb_of_def)

text \<open>
  Claim C2. For a service name outside the registry, whatever the path and the method,
  \<open>forward_request\<close> raises status 404 with code \<open>SERVICE_NOT_FOUND\<close> and the list of
  the valid service names, and it sends nothing to any backend.
\<close>

theorem unknown_service_404:
  assumes "service \<notin> set (map fst SERVICES)"
  shows "forward_request client ts service path method kwargs =
           ([Log WARNING (''Unknown service requested: '' @ service)],
            Inl (HTTPException 404 (JDict
              [(''error'', JStr ''SERVICE_NOT_FOUND''),
               (''message'', JStr (''Service '' @ quoted service @ '' does not exist'')),
               (''available_services'', JList [JStr ''student'', JStr ''course'']),
               (''timestamp'', JStr ts)])))
         \<and> filter is_Outbound (fst (forward_request client ts service path method kwargs)) = []"
proof -
  from assms have "map_of SERVICES service = None"
    by (simp add: map_of_eq_None_iff)
  then show ?thesis
    by (simp add: forward_request_def) (simp add: SERVICES_def)
qed

theorem unknown_service_404_witness:
  "forward_request (\<lambda>v url kw. Raises (OtherException ''never called''))
       ''2026-01-01T00:00:00'' ''nonexistent-service'' ''/api/x'' ''PATCH'' [] =
     ([Log WARNING ''Unknown service requested: nonexistent-service''],
      Inl (HTTPException 404 (JDict
        [(''error'', JStr ''SERVICE_NOT_FOUND''),
         (''message'', JStr (''Service '' @ quoted ''nonexistent-service'' @ '' does not exist'')),
         (''available_services'', JList [JStr ''student'', JStr ''course'']),
         (''timestamp'', JStr ''2026-01-01T00:00:00'')])))"
  using unknown_service_404 [of "''nonexistent-service''"
      "\<lambda>v url kw. Raises (OtherException ''never called'')" "''2026-01-01T00:00:00''"
      "''/api/x''" "''PATCH''" "[]"]
  by (simp add: SERVICES_def)

text \<open>
  Claim C4. For a configured service and any path, a method other than GET, POST, PUT
  and DELETE makes \<open>forward_request\<close> raise status 405 with code
  \<open>METHOD_NOT_ALLOWED\<close>, and no request goes out to the backend.
\<close>

theorem bad_method_405:
  assumes "service \<in> set (map fst SERVICES)"
    and "method \<notin> {''GET'', ''POST'', ''PUT'', ''DELETE''}"
  shows "snd (forward_request client ts service path method kwargs) =
           Inl (HTTPException 405 (JDict
             [(''error'', JStr ''METHOD_NOT_ALLOWED''),
              (''message'', JStr (''HTTP method '' @ quoted method @ '' is not supported'')),
              (''timestamp'', JStr ts)]))
         \<and> filter is_Outbound (fst (forward_request client ts service path method kwargs)) = []"
proof -
  from assms(1) obtain base where "map_of SERVICES service = Some base"
    by (cases "map_of SERVICES service") (simp_all add: map_of_eq_None_iff)
  moreover from assms(2) have "verb_of method = None"
    by (simp add: verb_of_def)
  ultimately show ?thesis
    by (simp add: forward_request_def Let_def)
qed

theorem bad_method_405_witness:
  "snd (forward_request (\<lambda>v url kw. Raises (OtherException ''never called''))
       ''2026-01-01T00:00:00'' ''student'' ''/api/students/1'' ''PATCH'' []) =
     Inl (HTTPException 405 (JDict
       [(''error'', JStr ''METHOD_NOT_ALLOWED''),
        (''message'', JStr (''HTTP method '' @ quoted ''PATCH'' @ '' is not supported'')),
        (''timestamp'', JStr ''2026-01-01T00:00:00'')]))
   \<and> filter is_Outbound (fst (forward_request (\<lambda>v url kw. Raises (OtherException ''never called''))
       ''2026-01-01T00:00:00'' ''student'' ''/api/students/1'' ''PATCH'' [])) = []"
  using bad_method_405 [of "''student''" "''PATCH''"
      "\<lambda>v url kw. Raises (OtherException ''never called'')" "''2026-01-01T00:00:00''"
      "''/api/students/1''" "[]"]
  by (simp add: SERVICES_def)




section \<open>Gateway: transport faults\<close>

lemma connect_not_timeout: "\<not> (isinstance c ConnectError \<and> isinstance c TimeoutException)"
  by (cases c) (simp_all add: isinstance_def)

lemma all_request_errors: "isinstance c RequestError"
  by (cases c) (simp_all add: isinstance_def)

text \<open>
  Claim C6. For a configured service, a transport fault of the outbound call falls in
  exactly one of three classes: a \<open>ConnectError\<close> gives status 503 with code
  \<open>SERVICE_UNAVAILABLE\<close> and the base address tried; a \<open>TimeoutException\<close> gives status
  504 with code \<open>GATEWAY_TIMEOUT\<close>; any other \<open>RequestError\<close> gives status 503 with code
  \<open>REQUEST_FAILED\<close> and the fault's own description. No fault is both a connection
  failure and a timeout.
\<close>

theorem transport_faults_classified:
  assumes "map_of SERVICES service = Some base"
    and "verb_of method = Some v"
    and "client v (base @ path) kwargs = Raises (HttpxError c m)"
  shows "(isinstance c ConnectError \<longrightarrow>
            snd (forward_request client ts service path method kwargs) =
              Inl (HTTPException 503 (JDict
                [(''error'', JStr ''SERVICE_UNAVAILABLE''),
                 (''message'', JStr (''Cannot connect to '' @ service
                     @ '' service. Make sure it is running.'')),
                 (''service_url'', JStr base),
                 (''timestamp'', JStr ts)])))
       \<and> (isinstance c TimeoutException \<longrightarrow>
            snd (forward_request client ts service path method kwargs) =
              Inl (HTTPException 504 (JDict
                [(''error'', JStr ''GATEWAY_TIMEOUT''),
                 (''message'', JStr (''The '' @ service @ '' service took too long to respond'')),
                 (''timestamp'', JStr ts)])))
       \<and> (\<not> isinstance c ConnectError \<and> \<not> isinstance c TimeoutException \<longrightarrow>
            snd (forward_request client ts service path method kwargs) =
              Inl (HTTPException 503 (JDict
                [(''error'', JStr ''REQUEST_FAILED''),
                 (''message'', JStr (''Failed to reach '' @ service @ '' service: '' @ m)),
                 (''timestamp'', JStr ts)])))
       \<and> \<not> (isinstance c ConnectError \<and> isinstance c TimeoutException)"
proof -
  have "snd (forward_request client ts service path method kwargs)
          = Inl (snd (on_exception ts service base (base @ path) (HttpxError c m)))"
    using assms by (rule forward_request_raised)
  then show ?thesis
    using connect_not_timeout [of c] all_request_errors [of c]
    by (auto simp add: on_exception_def)
qed

theorem transport_faults_classified_witness:
  "snd (forward_request (\<lambda>v url kw. Raises (HttpxError ConnectError ''All connection attempts failed''))
         ''2026-01-01T00:00:00'' ''course'' ''/api/courses'' ''GET'' []) =
     Inl (HTTPException 503 (JDict
       [(''error'', JStr ''SERVICE_UNAVAILABLE''),
        (''message'', JStr ''Cannot connect to course service. Make sure it is running.''),
        (''service_url'', JStr ''http://localhost:8002''),
        (''timestamp'', JStr ''2026-01-01T00:00:00'')]))
   \<and> snd (forward_request (\<lambda>v url kw. Raises (HttpxError ConnectTimeout ''timed out''))
         ''2026-01-01T00:00:00'' ''course'' ''/api/courses'' ''GET'' []) =
     Inl (HTTPException 504 (JDict
       [(''error'', JStr ''GATEWAY_TIMEOUT''),
        (''message'', JStr ''The course service took too long to respond''),
        (''timestamp'', JStr ''2026-01-01T00:00:00'')]))
   \<and> snd (forward_request (\<lambda>v url kw. Raises (HttpxError ReadError ''reset''))
         ''2026-01-01T00:00:00'' ''course'' ''/api/courses'' ''GET'' []) =
     Inl (HTTPException 503 (JDict
       [(''error'', JStr ''REQUEST_FAILED''),
        (''message'', JStr ''Failed to reach course service: reset''),
        (''timestamp'', JStr ''2026-01-01T00:00:00'')]))"
  using transport_faults_classified [of "''course''" "''http://localhost:8002''" "''GET''" GET
      "\<lambda>v url kw. Raises (HttpxError ConnectError ''All connection attempts failed'')"
      "''/api/courses''" "[]" ConnectError "''All connection attempts failed''"
      "''2026-01-01T00:00:00''"]
    transport_faults_classified [of "''course''" "''http://localhost:8002''" "''GET''" GET
      "\<lambda>v url kw. Raises (HttpxError ConnectTimeout ''timed out'')"
      "''/api/courses''" "[]" ConnectTimeout "''timed out''" "''2026-01-01T00:00:00''"]
    transport_faults_classified [of "''course''" "''http://localhost:8002''" "''GET''" GET
      "\<lambda>v url kw. Raises (HttpxError ReadError ''reset'')"
      "''/api/courses''" "[]" ReadError "''reset''" "''2026-01-01T00:00:00''"]
  by (simp add: SERVICES_def verb_of_def isinstance_def)

section \<open>Gateway: tokens are valid until they expire\<close>

text \<open>
  Claim C3. For a non-empty subject, the token made by \<open>create_access_token\<close> from
  \<open>{"sub": subject}\<close> at time \<open>t0\<close> expires 30 minutes later: \<open>verify_token\<close> at any
  time strictly before that instant returns the subject, and at that instant or later it
  fails with status 401 and code \<open>TOKEN_EXPIRED\<close>.
\<close>

theorem token_accepted_until_expiry:
  assumes "subject \<noteq> []"
  shows "(t < t0 + 60 * ACCESS_TOKEN_EXPIRE_MINUTES \<longrightarrow>
            verify_token ts t (create_access_token t0 [(''sub'', JStr subject)]) = Inr (JStr subject))
       \<and> (t \<ge> t0 + 60 * ACCESS_TOKEN_EXPIRE_MINUTES \<longrightarrow>
            verify_token ts t (create_access_token t0 [(''sub'', JStr subject)]) =
              Inl (HTTPException 401 (JDict
                [(''error'', JStr ''TOKEN_EXPIRED''),
                 (''message'', JStr ''Token has expired. Please login again.''),
                 (''timestamp'', JStr ts)])))"
  by (simp add: verify_token_def create_access_token_def jwt_encode_def jwt_decode_def Let_def)

theorem token_accepted_until_expiry_witness:
  "verify_token ''ts'' 1000 (create_access_token 0 [(''sub'', JStr ''admin'')]) = Inr (JStr ''admin'')
   \<and> verify_token ''ts'' 1799 (create_access_token 0 [(''sub'', JStr ''admin'')]) = Inr (JStr ''admin'')
   \<and> verify_token ''ts'' 1800 (create_access_token 0 [(''sub'', JStr ''admin'')]) =
       Inl (HTTPException 401 (JDict
         [(''error'', JStr ''TOKEN_EXPIRED''),
          (''message'', JStr ''Token has expired. Please login again.''),
          (''timestamp'', JStr ''ts'')]))"
  using token_accepted_until_expiry [of "''admin''" 1000 0 "''ts''"]
    token_accepted_until_expiry [of "''admin''" 1799 0 "''ts''"]
    token_accepted_until_expiry [of "''admin''" 1800 0 "''ts''"]
  by (simp add: ACCESS_TOKEN_EXPIRE_MINUTES_def)

section \<open>Gateway: what the update handlers send\<close>

lemma on_exception_no_outbound: "filter is_Outbound (fst (on_exception ts service base url e)) = []"
  by (simp add: on_exception_def split: exn.split)

lemma forward_request_outbound:
  assumes "map_of SERVICES service = Some base" and "verb_of method = Some v"
  shows "filter is_Outbound (fst (forward_request client ts service path method kwargs))
           = [Outbound v (base @ path) kwargs]"
proof (cases "client v (base @ path) kwargs")
  case (Responds r)
  with assms show ?thesis by (simp add: forward_request_def Let_def)
next
  case (Raises e)
  obtain logs e' where oe: "on_exception ts service base (base @ path) e = (logs, e')"
    by (cases "on_exception ts service base (base @ path) e")
  with on_exception_no_outbound [of ts service base "base @ path" e]
  have "filter is_Outbound logs = []" by simp
  with assms Raises oe show ?thesis
    by (simp add: forward_request_def Let_def)
qed

lemma keys_entry: "map fst (entry k tj f) = (if is_given f then [k] else [])"
  by (simp add: entry_def is_given_def split: field.split option.split)

lemma map_of_entry_hit: "map_of (entry k tj f @ rest) k = (case given_json tj f of None \<Rightarrow> map_of rest k | Some j \<Rightarrow> Some j)"
  by (simp add: entry_def given_json_def split: field.split option.split)

lemma map_of_entry_miss: "k \<noteq> k' \<Longrightarrow> map_of (entry k tj f @ rest) k' = map_of rest k'"
  by (simp add: entry_def split: field.split option.split)

lemma map_of_entry_last: "map_of (entry k tj f) k = given_json tj f"
  by (simp add: entry_def given_json_def split: field.split option.split)

lemma map_of_entry_last_miss: "k \<noteq> k' \<Longrightarrow> map_of (entry k tj f) k' = None"
  by (simp add: entry_def split: field.split option.split)

lemma student_keys: "map fst (student_dict_exclude_unset u) = student_fields_set u"
  by (simp add: student_dict_exclude_unset_def student_fields_set_def keys_entry)

lemma course_keys: "map fst (course_dict_exclude_unset u) = course_fields_set u"
  by (simp add: course_dict_exclude_unset_def course_fields_set_def keys_entry)

lemma student_values:
  "map_of (student_dict_exclude_unset u) ''name'' = given_json JStr (su_name u)"
  "map_of (student_dict_exclude_unset u) ''age'' = given_json JInt (su_age u)"
  "map_of (student_dict_exclude_unset u) ''email'' = given_json JStr (su_email u)"
  "map_of (student_dict_exclude_unset u) ''course'' = given_json JStr (su_course u)"
  by (simp_all add: student_dict_exclude_unset_def map_of_entry_hit map_of_entry_miss
      map_of_entry_last map_of_entry_last_miss del: map_of_append split: option.split)

lemma course_values:
  "map_of (course_dict_exclude_unset u) ''title'' = given_json JStr (gcu_title u)"
  "map_of (course_dict_exclude_unset u) ''description'' = given_json JStr (gcu_description u)"
  "map_of (course_dict_exclude_unset u) ''duration_weeks'' = given_json JInt (gcu_duration_weeks u)"
  "map_of (course_dict_exclude_unset u) ''instructor'' = given_json JStr (gcu_instructor u)"
  "map_of (course_dict_exclude_unset u) ''max_students'' = given_json JInt (gcu_max_students u)"
  by (simp_all add: course_dict_exclude_unset_def map_of_entry_hit map_of_entry_miss
      map_of_entry_last map_of_entry_last_miss del: map_of_append split: option.split)

lemma student_outbound:
  "filter is_Outbound (fst (update_student client ts student_id student user)) =
     [Outbound PUT (''http://localhost:8001/api/students/'' @ str_int student_id)
        [(''json'', JDict (student_dict_exclude_unset student))]]"
  unfolding update_student_def
  using forward_request_outbound [of "''student''" "''http://localhost:8001''" "''PUT''" PUT]
  by (simp add: SERVICES_def verb_of_def)

lemma course_outbound:
  "filter is_Outbound (fst (update_course_gw client ts course_id course user)) =
     [Outbound PUT (''http://localhost:8002/api/courses/'' @ str_int course_id)
        [(''json'', JDict (course_dict_exclude_unset course))]]"
  unfolding update_course_gw_def
  using forward_request_outbound [of "''course''" "''http://localhost:8002''" "''PUT''" PUT]
  by (simp add: SERVICES_def verb_of_def)

text \<open>
  Claim C7. \<open>update_student\<close> and \<open>update_course\<close> send one PUT to the backend whose
  JSON body has exactly the fields the inbound request set, each with the value given
  for it (\<open>null\<close> when it was given as \<open>null\<close>); a field left unset is absent from the
  body.
\<close>

theorem update_body_is_the_set_fields:
  "filter is_Outbound (fst (update_student client ts student_id student user)) =
     [Outbound PUT (''http://localhost:8001/api/students/'' @ str_int student_id)
        [(''json'', JDict (student_dict_exclude_unset student))]]
   \<and> map fst (student_dict_exclude_unset student) = student_fields_set student
   \<and> map_of (student_dict_exclude_unset student) ''name'' = given_json JStr (su_name student)
   \<and> map_of (student_dict_exclude_unset student) ''age'' = given_json JInt (su_age student)
   \<and> map_of (student_dict_exclude_unset student) ''email'' = given_json JStr (su_email student)
   \<and> map_of (student_dict_exclude_unset student) ''course'' = given_json JStr (su_course student)
   \<and> filter is_Outbound (fst (update_course_gw client ts course_id course user)) =
     [Outbound PUT (''http://localhost:8002/api/courses/'' @ str_int course_id)
        [(''json'', JDict (course_dict_exclude_unset course))]]
   \<and> map fst (course_dict_exclude_unset course) = course_fields_set course
   \<and> map_of (course_dict_exclude_unset course) ''title'' = given_json JStr (gcu_title course)
   \<and> map_of (course_dict_exclude_unset course) ''description''
       = given_json JStr (gcu_description course)
   \<and> map_of (course_dict_exclude_unset course) ''duration_weeks''
       = given_json JInt (gcu_duration_weeks course)
   \<and> map_of (course_dict_exclude_unset course) ''instructor''
       = given_json JStr (gcu_instructor course)
   \<and> map_of (course_dict_exclude_unset course) ''max_students''
       = given_json JInt (gcu_max_students course)"
  by (simp only: student_outbound course_outbound student_keys course_keys student_values
      course_values simp_thms)

theorem update_body_is_the_set_fields_witness:
  "filter is_Outbound (fst (update_student backend_ok ''ts'' 7 sample_student_update (JStr ''admin''))) =
     [Outbound PUT ''http://localhost:8001/api/students/7''
        [(''json'', JDict [(''name'', JStr ''Ann''), (''email'', JNull)])]]
   \<and> student_fields_set sample_student_update = [''name'', ''email'']
   \<and> filter is_Outbound (fst (update_course_gw backend_ok ''ts'' 2 sample_course_update (JStr ''admin''))) =
     [Outbound PUT ''http://localhost:8002/api/courses/2''
        [(''json'', JDict [(''duration_weeks'', JInt 9)])]]
   \<and> course_fields_set sample_course_update = [''duration_weeks'']"
  using update_body_is_the_set_fields [of backend_ok "''ts''" 7 sample_student_update
      "JStr ''admin''" 2 sample_course_update]
  by (simp add: student_dict_exclude_unset_def course_dict_exclude_unset_def entry_def
      student_fields_set_def course_fields_set_def is_given_def sample_student_update_def
      sample_course_update_def str_int_def)

section \<open>Gateway: the logging middleware\<close>







end
